theory Spec2Isabelle
  imports Complex_Main
begin

section \<open>Numbers\<close>

text \<open>
  The service computes with \<^verbatim>\<open>BigNumber\<close> of \<^verbatim>\<open>@0x/utils\<close>, which is bignumber.js
  configured with \<^verbatim>\<open>DECIMAL_PLACES: 78\<close> and the default rounding mode
  \<^verbatim>\<open>ROUND_HALF_UP\<close>. A value is a finite decimal, an infinity or NaN; the sign of a
  zero is not kept here. Sums, differences and products are exact; a quotient is rounded
  to \<open>DECIMAL_PLACES\<close> decimals, half away from zero. No operation raises.

  A JavaScript \<^verbatim>\<open>number\<close> (the fee unit and the threshold of a request) is kept with
  the same values: its finite values are taken as exact rationals, so the rounding of
  IEEE doubles is not part of this development.
\<close>

datatype BigNumber = Fin rat | PInf | NInf | NaN

type_synonym number = BigNumber

definition DECIMAL_PLACES :: nat where
  "DECIMAL_PLACES = 78"

definition round_half_up :: "rat \<Rightarrow> rat" where
  "round_half_up q =
     sgn q * (of_int \<lfloor>\<bar>q\<bar> * 10 ^ DECIMAL_PLACES + 1 / 2\<rfloor> / 10 ^ DECIMAL_PLACES)"

fun multipliedBy :: "BigNumber \<Rightarrow> BigNumber \<Rightarrow> BigNumber" where
  "multipliedBy NaN y = NaN"
| "multipliedBy x NaN = NaN"
| "multipliedBy (Fin x) (Fin y) = Fin (x * y)"
| "multipliedBy (Fin x) PInf = (if x = 0 then NaN else if 0 < x then PInf else NInf)"
| "multipliedBy (Fin x) NInf = (if x = 0 then NaN else if 0 < x then NInf else PInf)"
| "multipliedBy PInf (Fin y) = (if y = 0 then NaN else if 0 < y then PInf else NInf)"
| "multipliedBy NInf (Fin y) = (if y = 0 then NaN else if 0 < y then NInf else PInf)"
| "multipliedBy PInf PInf = PInf"
| "multipliedBy PInf NInf = NInf"
| "multipliedBy NInf PInf = NInf"
| "multipliedBy NInf NInf = PInf"

fun div_bn :: "BigNumber \<Rightarrow> BigNumber \<Rightarrow> BigNumber" where
  "div_bn NaN y = NaN"
| "div_bn x NaN = NaN"
| "div_bn (Fin x) (Fin y) =
     (if y = 0 then (if x = 0 then NaN else if 0 < x then PInf else NInf)
      else Fin (round_half_up (x / y)))"
| "div_bn (Fin x) PInf = Fin 0"
| "div_bn (Fin x) NInf = Fin 0"
| "div_bn PInf (Fin y) = (if y < 0 then NInf else PInf)"
| "div_bn NInf (Fin y) = (if y < 0 then PInf else NInf)"
| "div_bn PInf PInf = NaN"
| "div_bn PInf NInf = NaN"
| "div_bn NInf PInf = NaN"
| "div_bn NInf NInf = NaN"

fun plus_bn :: "BigNumber \<Rightarrow> BigNumber \<Rightarrow> BigNumber" where
  "plus_bn NaN y = NaN"
| "plus_bn x NaN = NaN"
| "plus_bn (Fin x) (Fin y) = Fin (x + y)"
| "plus_bn (Fin x) PInf = PInf"
| "plus_bn (Fin x) NInf = NInf"
| "plus_bn PInf (Fin y) = PInf"
| "plus_bn NInf (Fin y) = NInf"
| "plus_bn PInf PInf = PInf"
| "plus_bn PInf NInf = NaN"
| "plus_bn NInf PInf = NaN"
| "plus_bn NInf NInf = NInf"

fun minus_bn :: "BigNumber \<Rightarrow> BigNumber \<Rightarrow> BigNumber" where
  "minus_bn NaN y = NaN"
| "minus_bn x NaN = NaN"
| "minus_bn (Fin x) (Fin y) = Fin (x - y)"
| "minus_bn (Fin x) PInf = NInf"
| "minus_bn (Fin x) NInf = PInf"
| "minus_bn PInf (Fin y) = PInf"
| "minus_bn NInf (Fin y) = NInf"
| "minus_bn PInf PInf = NaN"
| "minus_bn PInf NInf = PInf"
| "minus_bn NInf PInf = NInf"
| "minus_bn NInf NInf = NaN"

text \<open>
  \<^verbatim>\<open>comparedTo\<close> gives -1, 0 or 1, and \<^verbatim>\<open>null\<close> when an operand is NaN; \<^verbatim>\<open>gt\<close>,
  \<^verbatim>\<open>lte\<close> and \<^verbatim>\<open>gte\<close> test its result, so each of them is false on NaN.
\<close>

fun comparedTo :: "BigNumber \<Rightarrow> BigNumber \<Rightarrow> int option" where
  "comparedTo NaN y = None"
| "comparedTo x NaN = None"
| "comparedTo (Fin x) (Fin y) = Some (if x < y then - 1 else if x = y then 0 else 1)"
| "comparedTo (Fin x) PInf = Some (- 1)"
| "comparedTo (Fin x) NInf = Some 1"
| "comparedTo PInf (Fin y) = Some 1"
| "comparedTo NInf (Fin y) = Some (- 1)"
| "comparedTo PInf PInf = Some 0"
| "comparedTo PInf NInf = Some 1"
| "comparedTo NInf PInf = Some (- 1)"
| "comparedTo NInf NInf = Some 0"

definition gt :: "BigNumber \<Rightarrow> BigNumber \<Rightarrow> bool" where
  "gt x y = (comparedTo x y = Some 1)"

definition lte :: "BigNumber \<Rightarrow> BigNumber \<Rightarrow> bool" where
  "lte x y = (comparedTo x y = Some (- 1) \<or> comparedTo x y = Some 0)"

definition gte :: "BigNumber \<Rightarrow> BigNumber \<Rightarrow> bool" where
  "gte x y = (comparedTo x y = Some 1 \<or> comparedTo x y = Some 0)"

text \<open>The quotient \<^verbatim>\<open>n / 100000\<close> of JavaScript numbers, the only one the service takes.\<close>

fun number_div_100000 :: "number \<Rightarrow> number" where
  "number_div_100000 (Fin n) = Fin (n / 100000)"
| "number_div_100000 PInf = PInf"
| "number_div_100000 NInf = NInf"
| "number_div_100000 NaN = NaN"

section \<open>Strings and arrays\<close>

text \<open>
  Addresses are hexadecimal strings; \<^verbatim>\<open>toLowerCase\<close> is taken on ASCII letters.
  Reading a JavaScript array outside its bounds gives \<^verbatim>\<open>undefined\<close>, here \<open>None\<close>.
\<close>

definition lower_char :: "char \<Rightarrow> char" where
  "lower_char c =
     (let n = (of_char c :: nat) in if 65 \<le> n \<and> n \<le> 90 then char_of (n + 32) else c)"

definition toLowerCase :: "string \<Rightarrow> string" where
  "toLowerCase s = map lower_char s"

definition array_get :: "'a list \<Rightarrow> int \<Rightarrow> 'a option" where
  "array_get xs i = (if 0 \<le> i \<and> nat i < length xs then Some (xs ! nat i) else None)"

datatype error = TypeError | InvalidAddress

section \<open>Orders, requests and configuration\<close>

text \<open>
  The records hold the fields that the order book service reads. The constants that the
  service imports from its configuration are not part of the sources at hand and are
  parameters of the functions below.
\<close>

record SignedLimitOrder =
  maker :: string
  taker :: string
  makerToken :: string
  takerToken :: string
  makerAmount :: BigNumber
  takerAmount :: BigNumber
  takerTokenFeeAmount :: BigNumber
  feeRecipient :: string
  expiry :: BigNumber

record MetaData =
  remainingFillableTakerAmount :: BigNumber

record SRAOrder =
  order :: SignedLimitOrder
  metaData :: MetaData

record OrderbookPriceRequest =
  page :: int
  perPage :: int
  graphUrl :: string
  createdBy :: string
  req_taker :: string
  req_feeRecipient :: string
  takerTokenFee :: number
  threshold :: number

record constants =
  NULL_ADDRESS :: string
  DIVA_GOVERNANCE_ADDRESS :: string
  ONE_SECOND_MS :: int
  SRA_ORDER_EXPIRATION_BUFFER_SECONDS :: int

record MakerInfoType =
  makers :: "string list"
  makerTokens :: "string list"

record FillableOrderType =
  extendedOrder :: SRAOrder
  minOfBalancesOrAllowances :: "BigNumber list"

section \<open>filterOrder\<close>

definition takerTokenFeeAmountExpected :: "SRAOrder \<Rightarrow> OrderbookPriceRequest \<Rightarrow> BigNumber" where
  "takerTokenFeeAmountExpected ord req =
     multipliedBy (takerAmount (order ord)) (number_div_100000 (takerTokenFee req))"

definition filterOrder :: "constants \<Rightarrow> SRAOrder \<Rightarrow> OrderbookPriceRequest \<Rightarrow> bool" where
  "filterOrder c ord req =
     (let expected = takerTokenFeeAmountExpected ord req;
          fee = takerTokenFeeAmount (order ord) in
      if takerTokenFee req \<noteq> Fin (- 1) \<and>
         taker (order ord) = NULL_ADDRESS c \<and>
         feeRecipient (order ord) = toLowerCase (DIVA_GOVERNANCE_ADDRESS c) \<and>
         (lte fee (minus_bn expected (Fin 1)) \<or> gte fee (plus_bn expected (Fin 1)))
      then False
      else if takerTokenFee req \<noteq> Fin (- 1) \<and>
         (lte fee (minus_bn expected (Fin 1)) \<or> gte fee (plus_bn expected (Fin 1)))
      then False
      else if req_taker req \<noteq> NULL_ADDRESS c \<and> req_taker req \<noteq> toLowerCase (taker (order ord))
      then False
      else if req_feeRecipient req \<noteq> NULL_ADDRESS c \<and>
         toLowerCase (feeRecipient (order ord)) \<noteq> req_feeRecipient req
      then False
      else if (threshold req \<noteq> Fin 0 \<and>
               lte (remainingFillableTakerAmount (metaData ord)) (threshold req)) \<or>
              lte (remainingFillableTakerAmount (metaData ord)) (Fin 100)
      then False
      else True)"

section \<open>getMakerInfo and getFillableOrder\<close>

definition getMakerInfo :: "SRAOrder list \<Rightarrow> MakerInfoType" where
  "getMakerInfo records =
     \<lparr>makers = map (\<lambda>data. maker (order data)) records,
      makerTokens = map (\<lambda>data. makerToken (order data)) records\<rparr>"

text \<open>
  The search for the index runs over all of \<^verbatim>\<open>makers\<close> and keeps the last index that
  matches; \<open>makerIndex\<close> starts at -1. Reading \<^verbatim>\<open>makerTokens[index]\<close> beyond the end
  gives \<^verbatim>\<open>undefined\<close>, whose \<^verbatim>\<open>toLowerCase\<close> raises.
\<close>

fun findMakerIndex :: "string list \<Rightarrow> string list \<Rightarrow> SRAOrder \<Rightarrow> nat \<Rightarrow> int \<Rightarrow> error + int" where
  "findMakerIndex [] mts ord index makerIndex = Inr makerIndex"
| "findMakerIndex (m # ms) mts ord index makerIndex =
     (if toLowerCase m = toLowerCase (maker (order ord)) then
        (if index < length mts then
           findMakerIndex ms mts ord (Suc index)
             (if toLowerCase (mts ! index) = toLowerCase (makerToken (order ord))
              then int index else makerIndex)
         else Inl TypeError)
      else findMakerIndex ms mts ord (Suc index) makerIndex)"

definition remainingFillableMakerAmount :: "SRAOrder \<Rightarrow> BigNumber" where
  "remainingFillableMakerAmount ord =
     div_bn (multipliedBy (makerAmount (order ord)) (remainingFillableTakerAmount (metaData ord)))
       (takerAmount (order ord))"

definition getFillableOrder ::
  "string list \<Rightarrow> string list \<Rightarrow> BigNumber list \<Rightarrow> SRAOrder \<Rightarrow> error + FillableOrderType" where
  "getFillableOrder mks mts balances ord =
     (case findMakerIndex mks mts ord 0 (- 1) of
        Inl e \<Rightarrow> Inl e
      | Inr makerIndex \<Rightarrow>
          (case array_get balances makerIndex of
             None \<Rightarrow> Inl TypeError
           | Some remainingMakerMinOfBalancesOrAllowances \<Rightarrow>
               if gt remainingMakerMinOfBalancesOrAllowances (Fin 0) then
                 Inr \<lparr>extendedOrder = ord\<lparr>metaData := (metaData ord)
                        \<lparr>remainingFillableTakerAmount :=
                           (if gt (remainingFillableMakerAmount ord)
                                 remainingMakerMinOfBalancesOrAllowances
                            then div_bn (multipliedBy remainingMakerMinOfBalancesOrAllowances
                                           (takerAmount (order ord)))
                                   (makerAmount (order ord))
                            else remainingFillableTakerAmount (metaData ord))\<rparr>\<rparr>,
                      minOfBalancesOrAllowances =
                        balances[nat makerIndex :=
                          minus_bn remainingMakerMinOfBalancesOrAllowances
                            (remainingFillableMakerAmount ord)]\<rparr>
               else
                 Inr \<lparr>extendedOrder = ord\<lparr>metaData := (metaData ord)
                        \<lparr>remainingFillableTakerAmount := Fin 0\<rparr>\<rparr>,
                      minOfBalancesOrAllowances = balances\<rparr>))"

section \<open>Pagination\<close>

record 'a PaginatedCollection =
  total :: nat
  pg_page :: int
  pg_perPage :: int
  records :: "'a list"

text \<open>\<^verbatim>\<open>Array.prototype.slice\<close>: a negative index counts from the end.\<close>

definition slice :: "'a list \<Rightarrow> int \<Rightarrow> int \<Rightarrow> 'a list" where
  "slice xs s e =
     (let n = int (length xs);
          s' = (if s < 0 then max (n + s) 0 else min s n);
          e' = (if e < 0 then max (n + e) 0 else min e n)
      in take (nat (e' - s')) (drop (nat s') xs))"

text \<open>
  Modelled from the spec: \<^verbatim>\<open>paginationUtils.paginate\<close> is not among the sources. A page
  is the run of \<open>perPage\<close> items that starts after the \<open>page - 1\<close> pages before it, and
  the number of all items is attached as \<open>total\<close> (25 items, page 2, 10 per page: items
  11 to 20, total 25).
\<close>

definition paginate :: "'a list \<Rightarrow> int \<Rightarrow> int \<Rightarrow> 'a PaginatedCollection" where
  "paginate collection p pp =
     \<lparr>total = length collection, pg_page = p, pg_perPage = pp,
      records = slice collection ((p - 1) * pp) (p * pp)\<rparr>"

section \<open>getOrderBookAsync\<close>

text \<open>
  The callback that \<^verbatim>\<open>getOrderBookAsync\<close> maps over the bids and then over the asks:
  each order goes through \<open>getFillableOrder\<close> with the balances the previous order left,
  and the order itself is pushed when its extended order passes \<open>filterOrder\<close>.
  An exception ends the request.
\<close>

fun mapFillableOrders ::
  "constants \<Rightarrow> string list \<Rightarrow> string list \<Rightarrow> OrderbookPriceRequest \<Rightarrow> SRAOrder list \<Rightarrow>
     BigNumber list \<Rightarrow> SRAOrder list \<Rightarrow> error + (SRAOrder list \<times> BigNumber list)" where
  "mapFillableOrders c mks mts req [] balances result = Inr (result, balances)"
| "mapFillableOrders c mks mts req (ord # ords) balances result =
     (case getFillableOrder mks mts balances ord of
        Inl e \<Rightarrow> Inl e
      | Inr fillableOrder \<Rightarrow>
          mapFillableOrders c mks mts req ords (minOfBalancesOrAllowances fillableOrder)
            (if filterOrder c (extendedOrder fillableOrder) req then result @ [ord] else result))"

record OrderbookResponse =
  bids :: "SRAOrder PaginatedCollection"
  asks :: "SRAOrder PaginatedCollection"

text \<open>
  The orders of the two sides, fresh and ranked, come from the database, and the
  balances from the balance checker contract: they are arguments here.
\<close>

definition getOrderBookAsync ::
  "constants \<Rightarrow> int \<Rightarrow> int \<Rightarrow> SRAOrder list \<Rightarrow> SRAOrder list \<Rightarrow> BigNumber list \<Rightarrow>
     error + OrderbookResponse" where
  "getOrderBookAsync c p pp bidApiOrders askApiOrders balances =
     (let mks = makers (getMakerInfo bidApiOrders) @ makers (getMakerInfo askApiOrders);
          mts = makerTokens (getMakerInfo bidApiOrders) @ makerTokens (getMakerInfo askApiOrders);
          req = \<lparr>page = p, perPage = pp, graphUrl = [], createdBy = [],
                 req_taker = NULL_ADDRESS c, req_feeRecipient = NULL_ADDRESS c,
                 takerTokenFee = Fin (- 1), threshold = Fin 0\<rparr>
      in case mapFillableOrders c mks mts req bidApiOrders balances [] of
           Inl e \<Rightarrow> Inl e
         | Inr (resultBids, balances') \<Rightarrow>
             (case mapFillableOrders c mks mts req askApiOrders balances' [] of
                Inl e \<Rightarrow> Inl e
              | Inr (resultAsks, balances'') \<Rightarrow>
                  Inr \<lparr>bids = paginate resultBids p pp, asks = paginate resultAsks p pp\<rparr>))"

section \<open>getPricesAsync\<close>

definition bind_result :: "error + 'a \<Rightarrow> ('a \<Rightarrow> error + 'b) \<Rightarrow> error + 'b" where
  "bind_result r f = (case r of Inl e \<Rightarrow> Inl e | Inr x \<Rightarrow> f x)"

text \<open>
  \<^verbatim>\<open>getAddress\<close> of ethers gives the checksummed form of an address and raises on a
  string that is no address; it is the parameter \<open>ga\<close>.
\<close>

definition getBidOrAskFormat :: "(string \<Rightarrow> error + string) \<Rightarrow> SRAOrder \<Rightarrow> error + SRAOrder" where
  "getBidOrAskFormat ga record =
     bind_result (ga (maker (order record))) (\<lambda>m.
     bind_result (ga (taker (order record))) (\<lambda>t.
     bind_result (ga (makerToken (order record))) (\<lambda>mt.
     bind_result (ga (takerToken (order record))) (\<lambda>tt.
     bind_result (ga (feeRecipient (order record))) (\<lambda>fr.
       Inr \<lparr>order = \<lparr>maker = m, taker = t, makerToken = mt, takerToken = tt,
                     makerAmount = makerAmount (order record),
                     takerAmount = takerAmount (order record),
                     takerTokenFeeAmount = takerTokenFeeAmount (order record),
                     feeRecipient = fr, expiry = expiry (order record)\<rparr>,
            metaData = \<lparr>remainingFillableTakerAmount =
                          remainingFillableTakerAmount (metaData record)\<rparr>\<rparr>)))))"

text \<open>
  The scan of one side of one market: the \<^verbatim>\<open>while\<close> loop over \<^verbatim>\<open>pools[i].bids\<close> (and
  the same loop over the asks), which stops at the first order whose extended order
  passes \<open>filterOrder\<close>. \<open>None\<close> stands for the empty object \<^verbatim>\<open>{}\<close>.
\<close>

fun bestOrder ::
  "constants \<Rightarrow> (string \<Rightarrow> error + string) \<Rightarrow> string list \<Rightarrow> string list \<Rightarrow>
     OrderbookPriceRequest \<Rightarrow> SRAOrder list \<Rightarrow> BigNumber list \<Rightarrow>
     error + (SRAOrder option \<times> BigNumber list)" where
  "bestOrder c ga mks mts req [] balances = Inr (None, balances)"
| "bestOrder c ga mks mts req (ord # ords) balances =
     (case getFillableOrder mks mts balances ord of
        Inl e \<Rightarrow> Inl e
      | Inr fillableOrder \<Rightarrow>
          if filterOrder c (extendedOrder fillableOrder) req then
            bind_result (getBidOrAskFormat ga ord) (\<lambda>best.
              Inr (Some best, minOfBalancesOrAllowances fillableOrder))
          else bestOrder c ga mks mts req ords (minOfBalancesOrAllowances fillableOrder))"

record Pool =
  baseToken :: string
  quoteToken :: string
  pool_bids :: "SRAOrder list"
  pool_asks :: "SRAOrder list"

record PriceRecord =
  price_baseToken :: string
  price_quoteToken :: string
  bid :: "SRAOrder option"
  ask :: "SRAOrder option"

fun bestBidsAndAsks ::
  "constants \<Rightarrow> (string \<Rightarrow> error + string) \<Rightarrow> string list \<Rightarrow> string list \<Rightarrow>
     OrderbookPriceRequest \<Rightarrow> Pool list \<Rightarrow> BigNumber list \<Rightarrow> PriceRecord list \<Rightarrow>
     error + (PriceRecord list \<times> BigNumber list)" where
  "bestBidsAndAsks c ga mks mts req [] balances result = Inr (result, balances)"
| "bestBidsAndAsks c ga mks mts req (pool # pools) balances result =
     (case bestOrder c ga mks mts req (pool_bids pool) balances of
        Inl e \<Rightarrow> Inl e
      | Inr (bestBid, balances') \<Rightarrow>
          (case bestOrder c ga mks mts req (pool_asks pool) balances' of
             Inl e \<Rightarrow> Inl e
           | Inr (bestAsk, balances'') \<Rightarrow>
               bind_result (ga (baseToken pool)) (\<lambda>b.
               bind_result (ga (quoteToken pool)) (\<lambda>q.
                 bestBidsAndAsks c ga mks mts req pools balances''
                   (result @ [\<lparr>price_baseToken = b, price_quoteToken = q,
                               bid = bestBid, ask = bestAsk\<rparr>])))))"

text \<open>
  The markets with their ranked bids and asks come from the pool list and the database;
  \<^verbatim>\<open>makers\<close> and \<^verbatim>\<open>makerTokens\<close> are concatenated as the queries of the markets
  complete, and the balances answer them position by position: all are arguments here.
\<close>

definition getPricesAsync ::
  "constants \<Rightarrow> (string \<Rightarrow> error + string) \<Rightarrow> OrderbookPriceRequest \<Rightarrow> Pool list \<Rightarrow>
     string list \<Rightarrow> string list \<Rightarrow> BigNumber list \<Rightarrow> error + PriceRecord PaginatedCollection" where
  "getPricesAsync c ga req pools mks mts balances =
     (case bestBidsAndAsks c ga mks mts req pools balances [] of
        Inl e \<Rightarrow> Inl e
      | Inr (result, balances') \<Rightarrow> Inr (paginate result 1 (perPage req)))"

section \<open>Expiry: getOrdersAsync and getBatchOrdersAsync\<close>

text \<open>
  A filter object of the query is a list of columns with the condition on each, and a
  row is kept by the \<^verbatim>\<open>where\<close> clause when it meets every condition of one of the
  filter objects. A row is given by the order it holds.
  \<open>set_field\<close> is the spread \<^verbatim>\<open>{...filter, key: value}\<close>: the other columns of the
  filter object, and the new condition on the column \<open>key\<close>.
\<close>

type_synonym filter_object = "(string \<times> (SRAOrder \<Rightarrow> bool)) list"

definition set_field :: "string \<Rightarrow> (SRAOrder \<Rightarrow> bool) \<Rightarrow> filter_object \<Rightarrow> filter_object" where
  "set_field k v f = filter (\<lambda>(k', cond). k' \<noteq> k) f @ [(k, v)]"

definition meets :: "filter_object \<Rightarrow> SRAOrder \<Rightarrow> bool" where
  "meets f row = list_all (\<lambda>(k, cond). cond row) f"

definition where_clause :: "filter_object list \<Rightarrow> SRAOrder \<Rightarrow> bool" where
  "where_clause fs row = list_ex (\<lambda>f. meets f row) fs"

text \<open>
  \<^verbatim>\<open>Date.now()\<close> is the argument \<open>nowMs\<close>, in milliseconds;
  \<^verbatim>\<open>Math.floor(Date.now() / ONE_SECOND_MS)\<close> is the integer quotient for a positive
  \<open>ONE_SECOND_MS\<close>.
\<close>

definition minExpiryTime :: "constants \<Rightarrow> int \<Rightarrow> int" where
  "minExpiryTime c nowMs = nowMs div ONE_SECOND_MS c + SRA_ORDER_EXPIRATION_BUFFER_SECONDS c"

definition MoreThanOrEqual :: "int \<Rightarrow> BigNumber \<Rightarrow> bool" where
  "MoreThanOrEqual m v = gte v (Fin (of_int m))"

definition filtersWithExpirationCheck ::
  "constants \<Rightarrow> int \<Rightarrow> filter_object list \<Rightarrow> filter_object list" where
  "filtersWithExpirationCheck c nowMs filters =
     map (\<lambda>filter. set_field ''expiry''
            (\<lambda>row. MoreThanOrEqual (minExpiryTime c nowMs) (expiry (order row))) filter)
       filters"

text \<open>
  The filters of \<^verbatim>\<open>getOrdersAsync\<close>: one per side when a trader is asked for (a string
  that is not empty), the order filter alone otherwise.
\<close>

definition getOrdersAsync_filters :: "filter_object \<Rightarrow> string option \<Rightarrow> filter_object list" where
  "getOrdersAsync_filters orderFilter trader =
     (case trader of
        None \<Rightarrow> [orderFilter]
      | Some t \<Rightarrow>
          if t = [] then [orderFilter]
          else [set_field ''maker'' (\<lambda>row. maker (order row) = t) orderFilter,
                set_field ''taker'' (\<lambda>row. taker (order row) = t) orderFilter])"

text \<open>The rows that the two queries of \<^verbatim>\<open>getOrdersAsync\<close> count and page through.\<close>

definition getOrdersAsync_rows ::
  "constants \<Rightarrow> int \<Rightarrow> filter_object \<Rightarrow> string option \<Rightarrow> SRAOrder list \<Rightarrow> SRAOrder list" where
  "getOrdersAsync_rows c nowMs orderFilter trader table =
     filter (where_clause
       (filtersWithExpirationCheck c nowMs (getOrdersAsync_filters orderFilter trader))) table"

record Freshness =
  fresh :: "SRAOrder list"
  expired :: "SRAOrder list"

text \<open>
  Modelled from the spec: \<^verbatim>\<open>orderUtils.groupByFreshness\<close> and the test it applies to
  an order are not among the sources. An order is expired if \<open>expiry \<le> now + buffer\<close>;
  \<open>now\<close> is in seconds.
\<close>

definition isExpired :: "rat \<Rightarrow> int \<Rightarrow> SRAOrder \<Rightarrow> bool" where
  "isExpired now buffer ord = lte (expiry (order ord)) (Fin (now + of_int buffer))"

text \<open>
  Modelled from the spec: \<^verbatim>\<open>orderUtils.groupByFreshness\<close> is not among the sources. It
  gives the partition of the orders into the fresh and the expired ones.
\<close>

definition groupByFreshness :: "rat \<Rightarrow> SRAOrder list \<Rightarrow> int \<Rightarrow> Freshness" where
  "groupByFreshness now apiOrders buffer =
     \<lparr>fresh = filter (\<lambda>ord. \<not> isExpired now buffer ord) apiOrders,
      expired = filter (isExpired now buffer) apiOrders\<rparr>"

text \<open>
  \<open>getBatchOrdersAsync\<close> gives the page of the fresh orders; the second component is
  what it hands to \<^verbatim>\<open>alertOnExpiredOrders\<close>.
\<close>

definition getBatchOrdersAsync ::
  "constants \<Rightarrow> rat \<Rightarrow> int \<Rightarrow> int \<Rightarrow> SRAOrder list \<Rightarrow> SRAOrder PaginatedCollection \<times> SRAOrder list" where
  "getBatchOrdersAsync c now p pp apiOrders =
     (let g = groupByFreshness now apiOrders (SRA_ORDER_EXPIRATION_BUFFER_SECONDS c)
      in (paginate (fresh g) p pp, expired g))"

section \<open>Predicates used in the statements\<close>

text \<open>
  \<open>pairAt mks mts ord i\<close>: the pair (maker, makerToken) of the order stands at index \<open>i\<close>
  of the two arrays, compared as \<open>getFillableOrder\<close> compares, in lower case.
\<close>

definition pairAt :: "string list \<Rightarrow> string list \<Rightarrow> SRAOrder \<Rightarrow> nat \<Rightarrow> bool" where
  "pairAt mks mts ord i =
     (i < length mks \<and> i < length mts \<and>
      toLowerCase (mks ! i) = toLowerCase (maker (order ord)) \<and>
      toLowerCase (mts ! i) = toLowerCase (makerToken (order ord)))"

text \<open>\<open>within_bounds ord\<close>: \<open>0 \<le> remainingFillableTakerAmount \<le> takerAmount\<close>.\<close>

definition within_bounds :: "SRAOrder \<Rightarrow> bool" where
  "within_bounds ord =
     (gte (remainingFillableTakerAmount (metaData ord)) (Fin 0) \<and>
      lte (remainingFillableTakerAmount (metaData ord)) (takerAmount (order ord)))"

text \<open>
  \<open>fetched_from ga pools rec\<close>: the best bid and the best ask of a price record are
  formatted orders of the pools, with the remaining amounts those orders had.
\<close>

definition fetched_from :: "(string \<Rightarrow> error + string) \<Rightarrow> Pool list \<Rightarrow> PriceRecord \<Rightarrow> bool" where
  "fetched_from ga pools rec =
     ((\<forall>b. bid rec = Some b \<longrightarrow>
         (\<exists>pool \<in> set pools. \<exists>ord \<in> set (pool_bids pool). getBidOrAskFormat ga ord = Inr b \<and>
            remainingFillableTakerAmount (metaData b) =
              remainingFillableTakerAmount (metaData ord))) \<and>
      (\<forall>a. ask rec = Some a \<longrightarrow>
         (\<exists>pool \<in> set pools. \<exists>ord \<in> set (pool_asks pool). getBidOrAskFormat ga ord = Inr a \<and>
            remainingFillableTakerAmount (metaData a) =
              remainingFillableTakerAmount (metaData ord))))"

section \<open>Example inputs\<close>

text \<open>
  Maker M holds 1000000 of token T. Order A (800000 for 800000) is ranked before order B
  (500000 for 500000); both are bids of M paid in T. The balances array has one entry
  per order, so the pair (M, T) stands at the indices 0 and 1. The addresses are in
  their checksummed form, which \<^verbatim>\<open>getAddress\<close> gives back as it is.
\<close>

definition example_constants :: constants where
  "example_constants =
     \<lparr>NULL_ADDRESS = ''0x0000000000000000000000000000000000000000'',
      DIVA_GOVERNANCE_ADDRESS = ''0xBb0F479895915F80f6fEb5BABcb0Ad39a0D7eF4E'',
      ONE_SECOND_MS = 1000,
      SRA_ORDER_EXPIRATION_BUFFER_SECONDS = 10\<rparr>"

definition maker_M :: string where
  "maker_M = ''0x5aAeb6053F3E94C9b9A09f33669435E7Ef1BeAed''"

definition maker_N :: string where
  "maker_N = ''0xD1220A0cf47c7B9Be7A2E6BA89F429762e7b9aDb''"

definition token_T :: string where
  "token_T = ''0xfB6916095ca1df60bB79Ce92cE3Ea74c37c5d359''"

definition token_L :: string where
  "token_L = ''0xdbF03B407c01E7cD3CBea99509d93f8DDDC8C6FB''"

definition example_order ::
  "string \<Rightarrow> string \<Rightarrow> string \<Rightarrow> rat \<Rightarrow> rat \<Rightarrow> rat \<Rightarrow> rat \<Rightarrow> rat \<Rightarrow> SRAOrder" where
  "example_order mk mt tt m t fee ex x =
     \<lparr>order = \<lparr>maker = mk, taker = ''0x0000000000000000000000000000000000000000'',
               makerToken = mt, takerToken = tt, makerAmount = Fin m, takerAmount = Fin t,
               takerTokenFeeAmount = Fin fee,
               feeRecipient = ''0x0000000000000000000000000000000000000000'',
               expiry = Fin ex\<rparr>,
      metaData = \<lparr>remainingFillableTakerAmount = Fin x\<rparr>\<rparr>"

definition order_A :: SRAOrder where
  "order_A = example_order maker_M token_T token_L 800000 800000 0 1900000000 800000"

definition order_B :: SRAOrder where
  "order_B = example_order maker_M token_T token_L 500000 500000 0 1900000000 500000"

text \<open>What \<open>getFillableOrder\<close> gives for order B once order A has drawn its 800000.\<close>

definition fillable_B :: FillableOrderType where
  "fillable_B =
     \<lparr>extendedOrder = order_B\<lparr>metaData := \<lparr>remainingFillableTakerAmount = Fin 200000\<rparr>\<rparr>,
      minOfBalancesOrAllowances = [Fin 1000000, Fin (- 300000)]\<rparr>"

text \<open>An order of another maker, N, whose pair is not in the arrays of M.\<close>

definition order_N :: SRAOrder where
  "order_N = example_order maker_N token_T token_L 500000 500000 0 1900000000 500000"

text \<open>An order whose implied maker amount is not a whole number: 1000001 * 1000000 / 2000000.\<close>

definition order_H :: SRAOrder where
  "order_H = example_order maker_M token_T token_L 1000001 2000000 0 1900000000 1000000"




text \<open>Orders with 100 and with 101 left to fill.\<close>

definition order_left_100 :: SRAOrder where
  "order_left_100 = example_order maker_M token_T token_L 500000 500000 0 1900000000 100"

definition order_left_101 :: SRAOrder where
  "order_left_101 = example_order maker_M token_T token_L 500000 500000 0 1900000000 101"

text \<open>
  An order that expires at 1700000010, which is the time 1700000000 (in milliseconds
  1700000000000) plus the buffer of 10 seconds.
\<close>

definition order_expiring :: SRAOrder where
  "order_expiring = example_order maker_M token_T token_L 500000 500000 0 1700000010 500000"

text \<open>The request that \<open>getOrderBookAsync\<close> builds, and a request with the fee unit 1000.\<close>

definition orderbook_request :: OrderbookPriceRequest where
  "orderbook_request =
     \<lparr>page = 1, perPage = 10, graphUrl = [], createdBy = [],
      req_taker = ''0x0000000000000000000000000000000000000000'',
      req_feeRecipient = ''0x0000000000000000000000000000000000000000'',
      takerTokenFee = Fin (- 1), threshold = Fin 0\<rparr>"

definition fee_request :: OrderbookPriceRequest where
  "fee_request = orderbook_request\<lparr>takerTokenFee := Fin 1000\<rparr>"




section \<open>Rounding of quotients\<close>

lemma round_half_up_nonneg: "0 \<le> q \<Longrightarrow> 0 \<le> round_half_up q"
  by (simp add: round_half_up_def sgn_if)

lemma round_half_up_mono:
  assumes "0 \<le> x" "x \<le> y"
  shows "round_half_up x \<le> round_half_up y"
proof -
  have "\<bar>x\<bar> * 10 ^ DECIMAL_PLACES + 1 / 2 \<le> \<bar>y\<bar> * 10 ^ DECIMAL_PLACES + 1 / 2"
    using assms by (simp add: mult_right_mono)
  then have "\<lfloor>\<bar>x\<bar> * 10 ^ DECIMAL_PLACES + 1 / 2\<rfloor> \<le> \<lfloor>\<bar>y\<bar> * 10 ^ DECIMAL_PLACES + 1 / 2\<rfloor>"
    by (rule floor_mono)
  then have le: "(of_int \<lfloor>\<bar>x\<bar> * 10 ^ DECIMAL_PLACES + 1 / 2\<rfloor> :: rat) / 10 ^ DECIMAL_PLACES
      \<le> of_int \<lfloor>\<bar>y\<bar> * 10 ^ DECIMAL_PLACES + 1 / 2\<rfloor> / 10 ^ DECIMAL_PLACES"
    by (simp add: divide_right_mono)
  show ?thesis
  proof (cases "x = 0")
    case True
    then show ?thesis using round_half_up_nonneg [of y] assms by (simp add: round_half_up_def)
  next
    case False
    then have "0 < x" "0 < y" using assms by auto
    then show ?thesis using le by (simp add: round_half_up_def)
  qed
qed

lemma floor_int_plus_half: "\<lfloor>(of_int n :: rat) + 1 / 2\<rfloor> = n"
  by (simp add: floor_eq_iff)

lemma round_half_up_of_int: "round_half_up (of_int k) = of_int k"
proof -
  have "\<bar>of_int k :: rat\<bar> * 10 ^ DECIMAL_PLACES + 1 / 2 =
      of_int (\<bar>k\<bar> * 10 ^ DECIMAL_PLACES) + 1 / 2"
    by simp
  then have "\<lfloor>\<bar>of_int k :: rat\<bar> * 10 ^ DECIMAL_PLACES + 1 / 2\<rfloor> = \<bar>k\<bar> * 10 ^ DECIMAL_PLACES"
    by (simp only: floor_int_plus_half)
  then show ?thesis
    by (simp add: round_half_up_def sgn_if)
qed

lemma round_half_up_numeral: "round_half_up (numeral n) = numeral n"
  using round_half_up_of_int [of "numeral n"] by simp




lemma clip_bound:
  fixes a x :: rat and m t :: int
  assumes "0 < a" "0 < m" "0 < t" "0 \<le> x" "x \<le> of_int t"
    and "a < round_half_up (of_int m * x / of_int t)"
  shows "0 \<le> round_half_up (a * of_int t / of_int m) \<and>
         round_half_up (a * of_int t / of_int m) \<le> of_int t"
proof -
  have "of_int m * x / of_int t \<le> (of_int m :: rat)"
    using assms(2-5) by (simp add: divide_le_eq mult_left_mono)
  moreover have "0 \<le> of_int m * x / (of_int t :: rat)"
    using assms(2-4) by simp
  ultimately have "round_half_up (of_int m * x / of_int t) \<le> round_half_up (of_int m)"
    by (rule round_half_up_mono [rotated])
  then have "a < of_int m" using assms(6) by (simp add: round_half_up_of_int)
  then have le: "a * of_int t / of_int m \<le> (of_int t :: rat)"
    using assms(1-3) by (simp add: divide_le_eq mult.commute mult_left_mono)
  have nn: "0 \<le> a * of_int t / (of_int m :: rat)"
    using assms(1-3) by simp
  from round_half_up_mono [OF nn le] round_half_up_nonneg [OF nn]
  show ?thesis by (simp add: round_half_up_of_int)
qed

lemma gt_Fin_0: "gt b (Fin 0) \<Longrightarrow> (\<exists>a. b = Fin a \<and> 0 < a) \<or> b = PInf"
  by (cases b) (auto simp: gt_def split: if_splits)

lemma gte_lte_Fin:
  "gte v (Fin 0) \<Longrightarrow> lte v (Fin u) \<Longrightarrow> \<exists>x. v = Fin x \<and> 0 \<le> x \<and> x \<le> u"
  by (cases v) (auto simp: gte_def lte_def split: if_splits)

section \<open>The index that getFillableOrder finds\<close>

lemma findMakerIndex_error: "findMakerIndex ms mts ord k mi = Inl e \<Longrightarrow> e = TypeError"
  by (induction ms arbitrary: k mi) (auto split: if_splits)

lemma pairAt_append_head:
  "pairAt (pre @ m # ms) mts ord (length pre) =
     (length pre < length mts \<and> toLowerCase m = toLowerCase (maker (order ord)) \<and>
      toLowerCase (mts ! length pre) = toLowerCase (makerToken (order ord)))"
  by (auto simp: pairAt_def)

lemma findMakerIndex_last:
  "findMakerIndex ms mts ord (length pre) mi = Inr r \<Longrightarrow>
     (\<exists>i. r = int i \<and> length pre \<le> i \<and> pairAt (pre @ ms) mts ord i \<and>
          (\<forall>j. i < j \<longrightarrow> \<not> pairAt (pre @ ms) mts ord j)) \<or>
     (r = mi \<and> (\<forall>i. length pre \<le> i \<longrightarrow> \<not> pairAt (pre @ ms) mts ord i))"
proof (induction ms arbitrary: pre mi)
  case Nil
  then show ?case by (auto simp: pairAt_def)
next
  case (Cons m ms)
  let ?k = "length pre"
  let ?hit = "pairAt (pre @ m # ms) mts ord ?k"
  let ?mi' = "if ?hit then int ?k else mi"
  have step: "findMakerIndex ms mts ord (length (pre @ [m])) ?mi' = Inr r"
    using Cons.prems by (auto simp: pairAt_append_head split: if_splits)
  from Cons.IH [OF step]
  consider (later) i where "r = int i" "Suc ?k \<le> i" "pairAt (pre @ m # ms) mts ord i"
      "\<forall>j. i < j \<longrightarrow> \<not> pairAt (pre @ m # ms) mts ord j"
    | (none) "r = ?mi'" "\<forall>i. Suc ?k \<le> i \<longrightarrow> \<not> pairAt (pre @ m # ms) mts ord i"
    by auto
  then show ?case
  proof cases
    case later
    then show ?thesis by (intro disjI1 exI [of _ i]) auto
  next
    case none
    show ?thesis
    proof (cases ?hit)
      case True
      with none show ?thesis by (intro disjI1 exI [of _ ?k]) (auto simp: Suc_le_eq)
    next
      case False
      have "\<not> pairAt (pre @ m # ms) mts ord i" if "?k \<le> i" for i
        using that False none(2) by (cases "i = ?k") (auto simp: Suc_le_eq)
      with none False show ?thesis by auto
    qed
  qed
qed

lemma findMakerIndex_0:
  "findMakerIndex mks mts ord 0 mi = Inr r \<Longrightarrow>
     (\<exists>i. r = int i \<and> pairAt mks mts ord i \<and> (\<forall>j. i < j \<longrightarrow> \<not> pairAt mks mts ord j)) \<or>
     (r = mi \<and> (\<forall>i. \<not> pairAt mks mts ord i))"
  using findMakerIndex_last [of mks mts ord "[]" mi r] by simp


lemma array_get_Some: "array_get xs k = Some a \<Longrightarrow> 0 \<le> k \<and> nat k < length xs \<and> a = xs ! nat k"
  by (auto simp: array_get_def split: if_splits)

lemma getFillableOrder_index:
  assumes "getFillableOrder mks mts bal ord = Inr r"
  shows "\<exists>i. findMakerIndex mks mts ord 0 (- 1) = Inr (int i) \<and> i < length bal \<and>
           pairAt mks mts ord i \<and> (\<forall>j. i < j \<longrightarrow> \<not> pairAt mks mts ord j)"
proof -
  from assms obtain k a where k: "findMakerIndex mks mts ord 0 (- 1) = Inr k"
    and a: "array_get bal k = Some a"
    by (auto simp: getFillableOrder_def split: sum.splits option.splits)
  from array_get_Some [OF a] have "0 \<le> k" "nat k < length bal" by auto
  with findMakerIndex_0 [OF k] k show ?thesis by auto
qed

lemma getFillableOrder_at:
  assumes "findMakerIndex mks mts ord 0 (- 1) = Inr (int i)" and "i < length bal"
  shows "getFillableOrder mks mts bal ord =
    Inr (if gt (bal ! i) (Fin 0) then
      \<lparr>extendedOrder = ord\<lparr>metaData := (metaData ord)
         \<lparr>remainingFillableTakerAmount :=
            (if gt (remainingFillableMakerAmount ord) (bal ! i)
             then div_bn (multipliedBy (bal ! i) (takerAmount (order ord))) (makerAmount (order ord))
             else remainingFillableTakerAmount (metaData ord))\<rparr>\<rparr>,
       minOfBalancesOrAllowances =
         bal[i := minus_bn (bal ! i) (remainingFillableMakerAmount ord)]\<rparr>
     else
      \<lparr>extendedOrder = ord\<lparr>metaData := (metaData ord)\<lparr>remainingFillableTakerAmount := Fin 0\<rparr>\<rparr>,
       minOfBalancesOrAllowances = bal\<rparr>)"
  using assms by (simp add: getFillableOrder_def array_get_def)

lemma getFillableOrder_no_pair:
  assumes "\<forall>i. \<not> pairAt mks mts ord i"
  shows "getFillableOrder mks mts bal ord = Inl TypeError"
proof (cases "findMakerIndex mks mts ord 0 (- 1)")
  case (Inl e)
  then show ?thesis using findMakerIndex_error [OF Inl] by (simp add: getFillableOrder_def)
next
  case (Inr k)
  with findMakerIndex_0 [OF Inr] assms have "k = - 1" by auto
  with Inr show ?thesis by (simp add: getFillableOrder_def array_get_def)
qed

lemma findMakerIndex_total:
  "k + length ms \<le> length mts \<Longrightarrow> \<exists>r. findMakerIndex ms mts ord k mi = Inr r"
  by (induction ms arbitrary: k mi) auto

lemma getFillableOrder_returns:
  assumes "pairAt mks mts ord i" and "length mks \<le> length mts" and "length mks \<le> length bal"
  shows "\<exists>r. getFillableOrder mks mts bal ord = Inr r \<and>
           length (minOfBalancesOrAllowances r) = length bal"
proof -
  from findMakerIndex_total [of 0 mks mts ord "- 1"] assms(2)
  obtain k where k: "findMakerIndex mks mts ord 0 (- 1) = Inr k" by auto
  from findMakerIndex_0 [OF k] assms(1) obtain i' where
    i': "k = int i'" "pairAt mks mts ord i'" by auto
  then have "i' < length bal" using assms(3) by (simp add: pairAt_def)
  from getFillableOrder_at [OF k [unfolded i'(1)] this] show ?thesis by auto
qed

lemma getFillableOrder_within_bounds:
  assumes ret: "getFillableOrder mks mts bal ord = Inr r"
    and m: "makerAmount (order ord) = Fin (of_int m)" "0 < m"
    and t: "takerAmount (order ord) = Fin (of_int t)" "0 < t"
    and x: "within_bounds ord"
  shows "within_bounds (extendedOrder r)"
proof -
  from getFillableOrder_index [OF ret] obtain i where
    i: "findMakerIndex mks mts ord 0 (- 1) = Inr (int i)" "i < length bal"
    by blast
  note r = getFillableOrder_at [OF i, unfolded ret]
  from x have "gte (remainingFillableTakerAmount (metaData ord)) (Fin 0)"
    "lte (remainingFillableTakerAmount (metaData ord)) (Fin (of_int t))"
    by (simp_all add: within_bounds_def t(1))
  from gte_lte_Fin [OF this] obtain x where
    xv: "remainingFillableTakerAmount (metaData ord) = Fin x" "0 \<le> x" "x \<le> of_int t"
    by blast
  have impl: "remainingFillableMakerAmount ord = Fin (round_half_up (of_int m * x / of_int t))"
    using m t xv by (simp add: remainingFillableMakerAmount_def)
  show ?thesis
  proof (cases "gt (bal ! i) (Fin 0)")
    case False
    with r t show ?thesis by (auto simp: within_bounds_def gte_def lte_def)
  next
    case True
    show ?thesis
    proof (cases "gt (remainingFillableMakerAmount ord) (bal ! i)")
      case False
      with True r t xv show ?thesis by (auto simp: within_bounds_def gte_def lte_def)
    next
      case clip: True
      from gt_Fin_0 [OF True] clip impl obtain a where
        a: "bal ! i = Fin a" "0 < a" "a < round_half_up (of_int m * x / of_int t)"
        by (auto simp: gt_def split: if_splits)
      from clip_bound [OF a(2) m(2) t(2) xv(2,3) a(3)]
      have "0 \<le> round_half_up (a * of_int t / of_int m)"
        "round_half_up (a * of_int t / of_int m) \<le> of_int t" by auto
      moreover have "remainingFillableTakerAmount (metaData (extendedOrder r)) =
          Fin (round_half_up (a * of_int t / of_int m))"
        using r True clip a m t by simp
      moreover have "takerAmount (order (extendedOrder r)) = Fin (of_int t)"
        using r True t by simp
      ultimately show ?thesis by (auto simp: within_bounds_def gte_def lte_def)
    qed
  qed
qed

section \<open>What the aggregators put out\<close>

lemma set_slice: "set (slice xs s e) \<subseteq> set xs"
  by (auto simp: slice_def Let_def dest: in_set_takeD in_set_dropD)

lemma set_paginate: "set (records (paginate xs p pp)) \<subseteq> set xs"
  using set_slice by (simp add: paginate_def)

lemma mapFillableOrders_subset:
  "mapFillableOrders c mks mts req ords bal acc = Inr (res, bal') \<Longrightarrow>
     set res \<subseteq> set acc \<union> set ords"
proof (induction ords arbitrary: bal acc)
  case Nil
  then show ?case by simp
next
  case (Cons ord ords)
  from Cons.prems obtain f where
    f: "getFillableOrder mks mts bal ord = Inr f"
    and rest: "mapFillableOrders c mks mts req ords (minOfBalancesOrAllowances f)
      (if filterOrder c (extendedOrder f) req then acc @ [ord] else acc) = Inr (res, bal')"
    by (auto split: sum.splits)
  from Cons.IH [OF rest] show ?case by (auto split: if_splits)
qed

lemma bind_result_Inr: "bind_result r f = Inr y \<Longrightarrow> \<exists>x. r = Inr x \<and> f x = Inr y"
  by (cases r) (auto simp: bind_result_def)

lemma getBidOrAskFormat_Inr:
  assumes "getBidOrAskFormat ga ord = Inr b"
  shows "remainingFillableTakerAmount (metaData b) = remainingFillableTakerAmount (metaData ord) \<and>
         makerAmount (order b) = makerAmount (order ord) \<and>
         takerAmount (order b) = takerAmount (order ord)"
  using assms unfolding getBidOrAskFormat_def
  by (auto dest!: bind_result_Inr)

lemma bestOrder_Some:
  "bestOrder c ga mks mts req ords bal = Inr (Some b, bal') \<Longrightarrow>
     \<exists>ord \<in> set ords. getBidOrAskFormat ga ord = Inr b"
proof (induction ords arbitrary: bal)
  case Nil
  then show ?case by simp
next
  case (Cons ord ords)
  from Cons.prems obtain f where f: "getFillableOrder mks mts bal ord = Inr f"
    by (auto split: sum.splits)
  show ?case
  proof (cases "filterOrder c (extendedOrder f) req")
    case True
    with Cons.prems f have "getBidOrAskFormat ga ord = Inr b"
      by (auto dest!: bind_result_Inr)
    then show ?thesis by simp
  next
    case False
    with Cons.prems f have "bestOrder c ga mks mts req ords (minOfBalancesOrAllowances f) =
        Inr (Some b, bal')" by simp
    from Cons.IH [OF this] show ?thesis by auto
  qed
qed

lemma fetched_from_Cons: "fetched_from ga pools rec \<Longrightarrow> fetched_from ga (pool # pools) rec"
  unfolding fetched_from_def by (meson list.set_intros(2))

lemma bestBidsAndAsks_fetched:
  "bestBidsAndAsks c ga mks mts req pools bal acc = Inr (res, bal') \<Longrightarrow>
     \<forall>rec \<in> set res. rec \<in> set acc \<or> fetched_from ga pools rec"
proof (induction pools arbitrary: bal acc)
  case Nil
  then show ?case by simp
next
  case (Cons pool pools)
  from Cons.prems obtain bestBid bal1 bestAsk bal2 b q where
    bids: "bestOrder c ga mks mts req (pool_bids pool) bal = Inr (bestBid, bal1)"
    and asks: "bestOrder c ga mks mts req (pool_asks pool) bal1 = Inr (bestAsk, bal2)"
    and rest: "bestBidsAndAsks c ga mks mts req pools bal2
      (acc @ [\<lparr>price_baseToken = b, price_quoteToken = q, bid = bestBid, ask = bestAsk\<rparr>]) =
      Inr (res, bal')"
    by (auto split: sum.splits dest!: bind_result_Inr)
  let ?new = "\<lparr>price_baseToken = b, price_quoteToken = q, bid = bestBid, ask = bestAsk\<rparr>"
  have new: "fetched_from ga (pool # pools) ?new"
  proof -
    have "\<exists>ord \<in> set (pool_bids pool). getBidOrAskFormat ga ord = Inr x \<and>
        remainingFillableTakerAmount (metaData x) = remainingFillableTakerAmount (metaData ord)"
      if "bestBid = Some x" for x
      using bestOrder_Some [of c ga mks mts req "pool_bids pool" bal x bal1] bids that
        getBidOrAskFormat_Inr [of ga _ x] by auto
    moreover have "\<exists>ord \<in> set (pool_asks pool). getBidOrAskFormat ga ord = Inr x \<and>
        remainingFillableTakerAmount (metaData x) = remainingFillableTakerAmount (metaData ord)"
      if "bestAsk = Some x" for x
      using bestOrder_Some [of c ga mks mts req "pool_asks pool" bal1 x bal2] asks that
        getBidOrAskFormat_Inr [of ga _ x] by auto
    ultimately show ?thesis by (simp add: fetched_from_def)
  qed
  show ?case
  proof
    fix rec assume "rec \<in> set res"
    with Cons.IH [OF rest] consider "rec \<in> set acc" | "rec = ?new" | "fetched_from ga pools rec"
      by auto
    then show "rec \<in> set (acc) \<or> fetched_from ga (pool # pools) rec"
      using new fetched_from_Cons by cases auto
  qed
qed

lemma getOrderBookAsync_records:
  assumes "getOrderBookAsync c p pp bidApiOrders askApiOrders bal = Inr resp"
  shows "set (records (bids resp)) \<subseteq> set bidApiOrders \<and>
         set (records (asks resp)) \<subseteq> set askApiOrders"
proof -
  from assms obtain mks mts req resultBids bal1 resultAsks bal2 where
    b: "mapFillableOrders c mks mts req bidApiOrders bal [] = Inr (resultBids, bal1)"
    and a: "mapFillableOrders c mks mts req askApiOrders bal1 [] = Inr (resultAsks, bal2)"
    and resp: "resp = \<lparr>bids = paginate resultBids p pp, asks = paginate resultAsks p pp\<rparr>"
    by (auto simp: getOrderBookAsync_def Let_def split: sum.splits)
  from mapFillableOrders_subset [OF b] set_paginate [of resultBids p pp] resp
  have "set (records (bids resp)) \<subseteq> set bidApiOrders" by auto
  moreover from mapFillableOrders_subset [OF a] set_paginate [of resultAsks p pp] resp
  have "set (records (asks resp)) \<subseteq> set askApiOrders" by auto
  ultimately show ?thesis ..
qed

lemma getPricesAsync_fetched:
  assumes "getPricesAsync c ga req pools mks mts bal = Inr prices"
  shows "\<forall>rec \<in> set (records prices). fetched_from ga pools rec"
proof -
  from assms obtain result bal' where
    r: "bestBidsAndAsks c ga mks mts req pools bal [] = Inr (result, bal')"
    and prices: "prices = paginate result 1 (perPage req)"
    by (auto simp: getPricesAsync_def split: sum.splits)
  from bestBidsAndAsks_fetched [OF r] have "\<forall>rec \<in> set result. fetched_from ga pools rec"
    by simp
  with set_paginate [of result 1 "perPage req"] prices show ?thesis by auto
qed

lemma getBidOrAskFormat_within_bounds:
  "getBidOrAskFormat ga ord = Inr b \<Longrightarrow> within_bounds ord \<Longrightarrow> within_bounds b"
  using getBidOrAskFormat_Inr [of ga ord b] by (simp add: within_bounds_def)

lemma mapFillableOrders_returns:
  assumes "\<forall>ord \<in> set ords. \<exists>i. pairAt mks mts ord i"
    and "length mks \<le> length mts" and "length mks \<le> length bal"
  shows "\<exists>res bal'. mapFillableOrders c mks mts req ords bal acc = Inr (res, bal') \<and>
           length bal' = length bal"
  using assms
proof (induction ords arbitrary: bal acc)
  case Nil
  then show ?case by simp
next
  case (Cons ord ords)
  from Cons.prems(1) obtain i where "pairAt mks mts ord i" by auto
  from getFillableOrder_returns [OF this Cons.prems(2,3)] obtain r where
    r: "getFillableOrder mks mts bal ord = Inr r"
      "length (minOfBalancesOrAllowances r) = length bal" by blast
  from Cons.prems have "\<forall>ord \<in> set ords. \<exists>i. pairAt mks mts ord i"
    "length mks \<le> length (minOfBalancesOrAllowances r)"
    using r(2) by auto
  from Cons.IH [OF this(1) Cons.prems(2) this(2)] r show ?case by simp
qed

lemma pairAt_getMakerInfo:
  assumes "ord \<in> set ords"
  shows "\<exists>i. pairAt (map (\<lambda>data. maker (order data)) ords)
               (map (\<lambda>data. makerToken (order data)) ords) ord i"
proof -
  from assms obtain i where "i < length ords" "ords ! i = ord"
    by (auto simp: in_set_conv_nth)
  then have "pairAt (map (\<lambda>data. maker (order data)) ords)
               (map (\<lambda>data. makerToken (order data)) ords) ord i"
    by (simp add: pairAt_def)
  then show ?thesis ..
qed

lemma getOrderBookAsync_returns:
  assumes "length bidApiOrders + length askApiOrders \<le> length bal"
  shows "\<exists>resp. getOrderBookAsync c p pp bidApiOrders askApiOrders bal = Inr resp"
proof -
  let ?all = "bidApiOrders @ askApiOrders"
  let ?mks = "map (\<lambda>data. maker (order data)) ?all"
  let ?mts = "map (\<lambda>data. makerToken (order data)) ?all"
  let ?req = "\<lparr>page = p, perPage = pp, graphUrl = [], createdBy = [],
                 req_taker = NULL_ADDRESS c, req_feeRecipient = NULL_ADDRESS c,
                 takerTokenFee = Fin (- 1), threshold = Fin 0\<rparr>"
  have len: "length ?mks \<le> length ?mts" "length ?mks \<le> length bal"
    using assms by simp_all
  have b: "\<forall>ord \<in> set bidApiOrders. \<exists>i. pairAt ?mks ?mts ord i"
    using pairAt_getMakerInfo [of _ ?all] by simp
  have a: "\<forall>ord \<in> set askApiOrders. \<exists>i. pairAt ?mks ?mts ord i"
    using pairAt_getMakerInfo [of _ ?all] by simp
  from mapFillableOrders_returns [OF b len, of c ?req "[]"] obtain resultBids bal1 where
    1: "mapFillableOrders c ?mks ?mts ?req bidApiOrders bal [] = Inr (resultBids, bal1)"
      "length bal1 = length bal" by blast
  from len(2) 1(2) have "length ?mks \<le> length bal1" by simp
  from mapFillableOrders_returns [OF a len(1) this, of c ?req "[]"] obtain resultAsks bal2 where
    2: "mapFillableOrders c ?mks ?mts ?req askApiOrders bal1 [] = Inr (resultAsks, bal2)"
    by blast
  from 1 2 show ?thesis
    by (simp add: getOrderBookAsync_def getMakerInfo_def)
qed

section \<open>The query of getOrdersAsync\<close>

lemma meets_set_field:
  "meets (set_field k v f) row = (meets (filter (\<lambda>(k', cond). k' \<noteq> k) f) row \<and> v row)"
  by (simp add: meets_def set_field_def)

lemma where_clause_expiry:
  "where_clause (filtersWithExpirationCheck c nowMs filters) row =
     (list_ex (\<lambda>f. meets (filter (\<lambda>(k, cond). k \<noteq> ''expiry'') f) row) filters \<and>
      gte (expiry (order row)) (Fin (of_int (nowMs div ONE_SECOND_MS c +
        SRA_ORDER_EXPIRATION_BUFFER_SECONDS c))))"
  by (induction filters)
    (auto simp: where_clause_def filtersWithExpirationCheck_def meets_set_field
      MoreThanOrEqual_def minExpiryTime_def)

section \<open>Evaluation of the examples\<close>

lemma lower_maker_M: "toLowerCase maker_M = ''0x5aaeb6053f3e94c9b9a09f33669435e7ef1beaed''"
  by code_simp

lemma lower_maker_N: "toLowerCase maker_N = ''0xd1220a0cf47c7b9be7a2e6ba89f429762e7b9adb''"
  by code_simp

lemma lower_token_T: "toLowerCase token_T = ''0xfb6916095ca1df60bb79ce92ce3ea74c37c5d359''"
  by code_simp

lemma lower_null:
  "toLowerCase ''0x0000000000000000000000000000000000000000'' =
     ''0x0000000000000000000000000000000000000000''"
  by code_simp

lemma lower_governance:
  "toLowerCase ''0xBb0F479895915F80f6fEb5BABcb0Ad39a0D7eF4E'' =
     ''0xbb0f479895915f80f6feb5babcb0ad39a0d7ef4e''"
  by code_simp

lemmas example_simps =
  order_A_def order_B_def order_N_def order_H_def example_order_def
  lower_maker_M lower_maker_N lower_token_T
  getFillableOrder_def array_get_def remainingFillableMakerAmount_def gt_def
  round_half_up_numeral

lemmas filter_simps =
  filterOrder_def takerTokenFeeAmountExpected_def lte_def gte_def
  example_constants_def orderbook_request_def fee_request_def example_order_def
  lower_null lower_governance

lemma getFillableOrder_B:
  "getFillableOrder [maker_M, maker_M] [token_T, token_T] [Fin 1000000, Fin 200000] order_B =
     Inr fillable_B"
  by (simp add: example_simps fillable_B_def)





section \<open>The claims\<close>

subsection \<open>C1: the balances during a fold\<close>

text \<open>
  Claim C1: during every fold over an ordered list of orders, the entry of the balances
  array for every (maker, makerToken) pair is never negative after an order has been
  processed.

  The code does not keep this. The comment in \<open>getFillableOrder\<close> describes the maker
  amount as the minimum of the balance left and the amount implied by the order, but
  the amount subtracted is the implied one. In the example, maker M holds 1000000 of
  token T; order A draws 800000 and leaves 200000, order B implies 500000, and after
  order B the entry of (M, T) is -300000.
\<close>

theorem fold_balance_negative:
  "mapFillableOrders example_constants [maker_M, maker_M] [token_T, token_T] orderbook_request
     [order_A, order_B] [Fin 1000000, Fin 1000000] [] =
   Inr ([order_A, order_B], [Fin 1000000, Fin (- 300000)])"
  by (simp add: example_simps filter_simps)

subsection \<open>C2: the amount subtracted\<close>



subsection \<open>C3: the orders in the responses\<close>




subsection \<open>C4: the bounds of the remaining taker amount\<close>

text \<open>
  Claim C4: for every order with \<open>0 \<le> remainingFillableTakerAmount \<le> takerAmount\<close> and
  positive \<open>makerAmount\<close> and \<open>takerAmount\<close>, the order returned by \<open>getFillableOrder\<close>
  satisfies \<open>0 \<le> remainingFillableTakerAmount \<le> takerAmount\<close>, and so does every order in
  the outputs of \<open>getOrderBookAsync\<close> and \<open>getPricesAsync\<close>. The maker and taker amounts of
  an order are whole numbers; the remaining taker amount may be any decimal.
\<close>

theorem getFillableOrder_remaining_bounds:
  "(getFillableOrder mks mts bal ord = Inr r \<and>
    makerAmount (order ord) = Fin (of_int m) \<and> 0 < m \<and>
    takerAmount (order ord) = Fin (of_int t) \<and> 0 < t \<and> within_bounds ord \<longrightarrow>
    within_bounds (extendedOrder r)) \<and>
   (getOrderBookAsync c p pp bidApiOrders askApiOrders bal1 = Inr resp \<and>
    (\<forall>ord \<in> set bidApiOrders \<union> set askApiOrders. within_bounds ord) \<longrightarrow>
    (\<forall>ord \<in> set (records (bids resp)) \<union> set (records (asks resp)). within_bounds ord)) \<and>
   (getPricesAsync c ga req pools mks2 mts2 bal2 = Inr prices \<and>
    (\<forall>pool \<in> set pools. \<forall>ord \<in> set (pool_bids pool) \<union> set (pool_asks pool).
       within_bounds ord) \<longrightarrow>
    (\<forall>rec \<in> set (records prices). \<forall>b. bid rec = Some b \<or> ask rec = Some b \<longrightarrow>
       within_bounds b))"
proof (intro conjI impI)
  assume "getFillableOrder mks mts bal ord = Inr r \<and>
    makerAmount (order ord) = Fin (of_int m) \<and> 0 < m \<and>
    takerAmount (order ord) = Fin (of_int t) \<and> 0 < t \<and> within_bounds ord"
  then show "within_bounds (extendedOrder r)"
    using getFillableOrder_within_bounds [of mks mts bal ord r m t] by blast
next
  assume a: "getOrderBookAsync c p pp bidApiOrders askApiOrders bal1 = Inr resp \<and>
    (\<forall>ord \<in> set bidApiOrders \<union> set askApiOrders. within_bounds ord)"
  then have "set (records (bids resp)) \<subseteq> set bidApiOrders \<and>
      set (records (asks resp)) \<subseteq> set askApiOrders"
    using getOrderBookAsync_records by blast
  with a show "\<forall>ord \<in> set (records (bids resp)) \<union> set (records (asks resp)). within_bounds ord"
    by blast
next
  assume a: "getPricesAsync c ga req pools mks2 mts2 bal2 = Inr prices \<and>
    (\<forall>pool \<in> set pools. \<forall>ord \<in> set (pool_bids pool) \<union> set (pool_asks pool).
       within_bounds ord)"
  then have f: "\<forall>rec \<in> set (records prices). fetched_from ga pools rec"
    using getPricesAsync_fetched by blast
  show "\<forall>rec \<in> set (records prices). \<forall>b. bid rec = Some b \<or> ask rec = Some b \<longrightarrow>
       within_bounds b"
  proof (intro ballI allI impI)
    fix rec b
    assume rec: "rec \<in> set (records prices)" and b: "bid rec = Some b \<or> ask rec = Some b"
    from f rec have "fetched_from ga pools rec" by blast
    with b obtain pool ord where "pool \<in> set pools"
      "ord \<in> set (pool_bids pool) \<union> set (pool_asks pool)" "getBidOrAskFormat ga ord = Inr b"
      unfolding fetched_from_def by blast
    with a show "within_bounds b" using getBidOrAskFormat_within_bounds by blast
  qed
qed

text \<open>Claim C4, at order B with 200000 left for (M, T): the clipped 200000 is within 0 and 500000.\<close>

theorem getFillableOrder_remaining_bounds_witness:
  "getFillableOrder [maker_M, maker_M] [token_T, token_T] [Fin 1000000, Fin 200000] order_B =
     Inr fillable_B \<and>
   makerAmount (order order_B) = Fin (of_int 500000) \<and>
   takerAmount (order order_B) = Fin (of_int 500000) \<and>
   within_bounds order_B \<and>
   gte (remainingFillableTakerAmount (metaData (extendedOrder fillable_B))) (Fin 0) \<and>
   lte (remainingFillableTakerAmount (metaData (extendedOrder fillable_B)))
     (takerAmount (order (extendedOrder fillable_B)))"
proof -
  have m: "makerAmount (order order_B) = Fin (of_int 500000)" "(0::int) < 500000"
    by (simp_all add: example_simps)
  have t: "takerAmount (order order_B) = Fin (of_int 500000)"
    by (simp add: example_simps)
  have x: "within_bounds order_B"
    by (simp add: within_bounds_def example_simps gte_def lte_def)
  from getFillableOrder_remaining_bounds [of "[maker_M, maker_M]" "[token_T, token_T]"
      "[Fin 1000000, Fin 200000]" order_B fillable_B 500000 500000]
    getFillableOrder_B m t x
  have "within_bounds (extendedOrder fillable_B)" by blast
  with getFillableOrder_B m(1) t x show ?thesis by (simp add: within_bounds_def)
qed


subsection \<open>C5: a pair that is not in the arrays\<close>

text \<open>
  Claim C5: for an order whose (maker, makerToken) pair is at no index of the arrays,
  \<open>getFillableOrder\<close> takes the available amount as zero and returns the order with the
  remaining taker amount 0 and the balances unchanged.

  This fails: the index stays -1, the read at -1 gives \<^verbatim>\<open>undefined\<close>, and the call of
  \<^verbatim>\<open>gt\<close> on it raises a TypeError. Order N of maker N is not in the arrays of maker M.
\<close>

theorem missing_pair_zero_counterexample:
  "(\<forall>i. \<not> pairAt [maker_M] [token_T] order_N i) \<and>
   getFillableOrder [maker_M] [token_T] [Fin 1000000] order_N = Inl TypeError \<and>
   getFillableOrder [maker_M] [token_T] [Fin 1000000] order_N \<noteq>
     Inr \<lparr>extendedOrder = order_N\<lparr>metaData := \<lparr>remainingFillableTakerAmount = Fin 0\<rparr>\<rparr>,
          minOfBalancesOrAllowances = [Fin 1000000]\<rparr>"
  by (auto simp: pairAt_def example_simps)

text \<open>
  Claim C5, amended: for an order whose (maker, makerToken) pair is at no index of the
  arrays, \<open>getFillableOrder\<close> does not return: it raises a TypeError, whatever the
  balances are. \<open>getOrderBookAsync\<close> builds the arrays from the orders it folds, so that
  with a balance for every order each pair is found and the request does not raise.
\<close>

theorem getFillableOrder_missing_pair_raises:
  "((\<forall>i. \<not> pairAt mks mts ord i) \<longrightarrow> getFillableOrder mks mts bal ord = Inl TypeError) \<and>
   (length bidApiOrders + length askApiOrders \<le> length balances \<longrightarrow>
      (\<exists>resp. getOrderBookAsync c p pp bidApiOrders askApiOrders balances = Inr resp))"
  using getFillableOrder_no_pair getOrderBookAsync_returns by blast

text \<open>
  Claim C5, amended, at order N and the arrays of order A and order B, and at the order
  book of order A and order B.
\<close>

theorem getFillableOrder_missing_pair_raises_witness:
  "(\<forall>i. \<not> pairAt [maker_M, maker_M] [token_T, token_T] order_N i) \<and>
   getFillableOrder [maker_M, maker_M] [token_T, token_T] [Fin 1000000, Fin 200000] order_N =
     Inl TypeError \<and>
   (\<exists>resp. getOrderBookAsync example_constants 1 10 [order_A, order_B] []
      [Fin 1000000, Fin 1000000] = Inr resp)"
proof -
  have none: "\<forall>i. \<not> pairAt [maker_M, maker_M] [token_T, token_T] order_N i"
    by (auto simp: pairAt_def example_simps nth_Cons split: nat.splits)
  have len: "length [order_A, order_B] + length ([] :: SRAOrder list) \<le>
      length [Fin 1000000, Fin 1000000]"
    by simp
  from getFillableOrder_missing_pair_raises [of "[maker_M, maker_M]" "[token_T, token_T]" order_N
      "[Fin 1000000, Fin 200000]" "[order_A, order_B]" "[]" "[Fin 1000000, Fin 1000000]"
      example_constants 1 10] none len
  show ?thesis by blast
qed

subsection \<open>C6: the tolerance of the fee check\<close>




subsection \<open>C7: the arithmetic of the amounts\<close>




subsection \<open>C8: the dust floor\<close>

text \<open>
  Claim C8: \<open>filterOrder\<close> rejects every order whose \<open>remainingFillableTakerAmount\<close> is at
  most 100, whatever the threshold of the request is; and with the threshold 0 and the
  taker, fee recipient and fee checks passing, an order with 101 left is accepted.
\<close>

theorem filterOrder_dust_floor:
  "(lte (remainingFillableTakerAmount (metaData ord)) (Fin 100) \<longrightarrow> \<not> filterOrder c ord req) \<and>
   (threshold req = Fin 0 \<and> remainingFillableTakerAmount (metaData ord) = Fin 101 \<and>
    (takerTokenFee req = Fin (- 1) \<or>
     \<not> (lte (takerTokenFeeAmount (order ord))
           (minus_bn (takerTokenFeeAmountExpected ord req) (Fin 1)) \<or>
        gte (takerTokenFeeAmount (order ord))
           (plus_bn (takerTokenFeeAmountExpected ord req) (Fin 1)))) \<and>
    (req_taker req = NULL_ADDRESS c \<or> req_taker req = toLowerCase (taker (order ord))) \<and>
    (req_feeRecipient req = NULL_ADDRESS c \<or>
     toLowerCase (feeRecipient (order ord)) = req_feeRecipient req) \<longrightarrow>
    filterOrder c ord req)"
  by (auto simp: filterOrder_def lte_def Let_def)

text \<open>
  Claim C8, at the orders with 100 and with 101 left and the request of the order book
  (threshold 0, no constraint on taker, fee recipient and fee).
\<close>

theorem filterOrder_dust_floor_witness:
  "lte (remainingFillableTakerAmount (metaData order_left_100)) (Fin 100) \<and>
   \<not> filterOrder example_constants order_left_100 orderbook_request \<and>
   threshold orderbook_request = Fin 0 \<and>
   remainingFillableTakerAmount (metaData order_left_101) = Fin 101 \<and>
   filterOrder example_constants order_left_101 orderbook_request"
proof -
  have low: "lte (remainingFillableTakerAmount (metaData order_left_100)) (Fin 100)"
    by (simp add: order_left_100_def example_order_def lte_def)
  have ok: "threshold orderbook_request = Fin 0"
    "remainingFillableTakerAmount (metaData order_left_101) = Fin 101"
    "takerTokenFee orderbook_request = Fin (- 1)"
    "req_taker orderbook_request = NULL_ADDRESS example_constants"
    "req_feeRecipient orderbook_request = NULL_ADDRESS example_constants"
    by (simp_all add: orderbook_request_def example_constants_def order_left_101_def
        example_order_def)
  from filterOrder_dust_floor [of order_left_100 example_constants orderbook_request] low
  have "\<not> filterOrder example_constants order_left_100 orderbook_request" by blast
  moreover from filterOrder_dust_floor [of order_left_101 example_constants orderbook_request] ok
  have "filterOrder example_constants order_left_101 orderbook_request" by blast
  ultimately show ?thesis using low ok(1,2) by blast
qed

subsection \<open>C9: expired orders\<close>

text \<open>
  Claim C9: an order is expired exactly when \<open>expiry \<le> now + buffer\<close>;
  \<open>getBatchOrdersAsync\<close> splits the orders by this rule, reports the expired ones and
  returns the fresh ones, and the query of \<open>getOrdersAsync\<close> keeps exactly the orders
  that are not expired by the same rule, so that an order with \<open>expiry = now + buffer\<close>
  is expired for both.

  This fails for \<open>getOrdersAsync\<close>: its query keeps the rows with
  \<open>expiry \<ge> now + buffer\<close>. At the time 1700000000 with the buffer 10, the order that
  expires at 1700000010 is reported as expired by \<open>getBatchOrdersAsync\<close> and is kept by
  the query of \<open>getOrdersAsync\<close>.
\<close>

theorem expiry_boundary_counterexample:
  "expiry (order order_expiring) = Fin (1700000000 + 10) \<and>
   isExpired 1700000000 (SRA_ORDER_EXPIRATION_BUFFER_SECONDS example_constants) order_expiring \<and>
   getBatchOrdersAsync example_constants 1700000000 1 10 [order_expiring] =
     (\<lparr>total = 0, pg_page = 1, pg_perPage = 10, records = []\<rparr>, [order_expiring]) \<and>
   minExpiryTime example_constants 1700000000000 = 1700000000 + 10 \<and>
   getOrdersAsync_rows example_constants 1700000000000 [] None [order_expiring] =
     [order_expiring]"
  by (simp add: order_expiring_def example_order_def isExpired_def lte_def gte_def
      example_constants_def getBatchOrdersAsync_def groupByFreshness_def paginate_def slice_def
      minExpiryTime_def getOrdersAsync_rows_def getOrdersAsync_filters_def where_clause_def
      filtersWithExpirationCheck_def set_field_def meets_def MoreThanOrEqual_def)

text \<open>
  Claim C9, amended: \<open>getBatchOrdersAsync\<close> returns the page of the orders with
  \<open>expiry > now + buffer\<close> and reports the orders with \<open>expiry \<le> now + buffer\<close>; the
  query of \<open>getOrdersAsync\<close> keeps exactly the rows that meet the other columns of one
  of its filters and have \<open>expiry \<ge> floor (now) + buffer\<close>, so that an order with
  \<open>expiry = now + buffer\<close> is expired for \<open>getBatchOrdersAsync\<close> and kept by
  \<open>getOrdersAsync\<close>.
\<close>

theorem expiry_rules:
  "fst (getBatchOrdersAsync c now p pp apiOrders) =
     paginate (filter (\<lambda>ord. \<not> lte (expiry (order ord))
         (Fin (now + of_int (SRA_ORDER_EXPIRATION_BUFFER_SECONDS c)))) apiOrders) p pp \<and>
   snd (getBatchOrdersAsync c now p pp apiOrders) =
     filter (\<lambda>ord. lte (expiry (order ord))
         (Fin (now + of_int (SRA_ORDER_EXPIRATION_BUFFER_SECONDS c)))) apiOrders \<and>
   getOrdersAsync_rows c nowMs orderFilter trader table =
     filter (\<lambda>row.
        list_ex (\<lambda>f. meets (filter (\<lambda>(k, cond). k \<noteq> ''expiry'') f) row)
          (getOrdersAsync_filters orderFilter trader) \<and>
        gte (expiry (order row)) (Fin (of_int (nowMs div ONE_SECOND_MS c +
          SRA_ORDER_EXPIRATION_BUFFER_SECONDS c)))) table"
proof -
  have "fst (getBatchOrdersAsync c now p pp apiOrders) =
     paginate (filter (\<lambda>ord. \<not> lte (expiry (order ord))
         (Fin (now + of_int (SRA_ORDER_EXPIRATION_BUFFER_SECONDS c)))) apiOrders) p pp"
    by (simp add: getBatchOrdersAsync_def groupByFreshness_def isExpired_def Let_def)
  moreover have "snd (getBatchOrdersAsync c now p pp apiOrders) =
     filter (\<lambda>ord. lte (expiry (order ord))
         (Fin (now + of_int (SRA_ORDER_EXPIRATION_BUFFER_SECONDS c)))) apiOrders"
    by (simp add: getBatchOrdersAsync_def groupByFreshness_def isExpired_def [abs_def] Let_def)
  moreover have "getOrdersAsync_rows c nowMs orderFilter trader table =
     filter (\<lambda>row.
        list_ex (\<lambda>f. meets (filter (\<lambda>(k, cond). k \<noteq> ''expiry'') f) row)
          (getOrdersAsync_filters orderFilter trader) \<and>
        gte (expiry (order row)) (Fin (of_int (nowMs div ONE_SECOND_MS c +
          SRA_ORDER_EXPIRATION_BUFFER_SECONDS c)))) table"
    unfolding getOrdersAsync_rows_def
    by (rule filter_cong) (simp_all only: where_clause_expiry)
  ultimately show ?thesis by blast
qed

text \<open>
  Claim C9, amended, one second after the order expires: the query of \<open>getOrdersAsync\<close>
  drops the order that expired and keeps order B.
\<close>

theorem expiry_rules_witness:
  "getOrdersAsync_rows example_constants 1700000011000 [] None [order_expiring, order_B] =
     [order_B] \<and>
   snd (getBatchOrdersAsync example_constants 1700000011 1 10 [order_expiring, order_B]) =
     [order_expiring]"
  using expiry_rules [of example_constants 1700000011 1 10 "[order_expiring, order_B]"
      1700000011000 "[]" None "[order_expiring, order_B]"]
  by (simp add: order_expiring_def order_B_def example_order_def lte_def gte_def
      example_constants_def getOrdersAsync_filters_def meets_def)

subsection \<open>C10: one entry for one pair\<close>




end
